theory Spec2Isabelle
  imports Main "HOL-Library.Word"
begin

unbundle bit_operations_syntax

section \<open>Basic types\<close>

text \<open>
  A Go \<open>byte\<close> is an 8-bit word. Go's \<open>int\<close> is the 64-bit signed integer of the
  platforms the client is built for; \<open>sint\<close> reads it. \<open>uint16\<close> and
  \<open>uint32\<close> are the words of their widths.
\<close>

type_synonym byte = "8 word"
type_synonym goint = "64 word"

section \<open>Extension payloads (nvim.go, decodeExt and encodeExt)\<close>

text \<open>
  \<open>fmt\<close>'s \<open>%x\<close> on a byte slice: two lower-case hexadecimal digits per byte.
\<close>

definition hexdigit :: "nat \<Rightarrow> char" where
  "hexdigit d = (''0123456789abcdef'') ! (d mod 16)"

definition hexbyte :: "byte \<Rightarrow> string" where
  "hexbyte b = [hexdigit (unat b div 16), hexdigit (unat b mod 16)]"

definition hexbytes :: "byte list \<Rightarrow> string" where
  "hexbytes p = concat (map hexbyte p)"

text \<open>
  \<open>decodeExt\<close> reads a MsgPack encoded number. The cases are tried in the order of the
  source's \<open>switch\<close>; each guard tests the length before it indexes, so no index is
  out of range. The default case returns 0 and an error: the model returns the error's
  message on the left.
\<close>

definition be16 :: "byte \<Rightarrow> byte \<Rightarrow> 16 word" where
  "be16 p1 p2 = (ucast p2 OR push_bit 8 (ucast p1))"

definition be32 :: "byte \<Rightarrow> byte \<Rightarrow> byte \<Rightarrow> byte \<Rightarrow> 32 word" where
  "be32 p1 p2 p3 p4 =
     (ucast p4 OR push_bit 8 (ucast p3) OR push_bit 16 (ucast p2) OR push_bit 24 (ucast p1))"

definition decodeExt :: "byte list \<Rightarrow> string + goint" where
  "decodeExt p =
     (if length p = 1 \<and> p ! 0 \<le> 0x7f then Inr (ucast (p ! 0))
      else if length p = 2 \<and> p ! 0 = 0xcc then Inr (ucast (p ! 1))
      else if length p = 3 \<and> p ! 0 = 0xcd then Inr (ucast (be16 (p ! 1) (p ! 2)))
      else if length p = 5 \<and> p ! 0 = 0xce then
        Inr (ucast (be32 (p ! 1) (p ! 2) (p ! 3) (p ! 4)))
      else if length p = 2 \<and> p ! 0 = 0xd0 then Inr (scast (p ! 1))
      else if length p = 3 \<and> p ! 0 = 0xd1 then Inr (scast (be16 (p ! 1) (p ! 2)))
      else if length p = 5 \<and> p ! 0 = 0xd2 then
        Inr (scast (be32 (p ! 1) (p ! 2) (p ! 3) (p ! 4)))
      else if length p = 1 \<and> p ! 0 \<ge> 0xe0 then Inr (scast (p ! 0))
      else Inl (''go-client/nvim: error decoding extension bytes '' @ hexbytes p))"

text \<open>
  \<open>encodeExt\<close>: \<open>n >> k\<close> on a signed \<open>int\<close> is the arithmetic shift, and
  \<open>byte(...)\<close> keeps the low 8 bits.
\<close>

definition encodeExt :: "goint \<Rightarrow> byte list" where
  "encodeExt n =
     [0xd2, ucast (signed_drop_bit 24 n), ucast (signed_drop_bit 16 n),
      ucast (signed_drop_bit 8 n), ucast n]"

section \<open>Strings, bytes and formatting\<close>

text \<open>
  A Go string is a sequence of bytes; \<open>[]byte(s)\<close> and \<open>string(p)\<close> convert
  between the two without changing a byte.
\<close>

definition string_bytes :: "string \<Rightarrow> byte list" where
  "string_bytes s = map (\<lambda>c. of_nat (of_char c)) s"

definition bytes_string :: "byte list \<Rightarrow> string" where
  "bytes_string bs = map (\<lambda>b. char_of (unat b)) bs"

text \<open>\<open>fmt\<close>'s \<open>%d\<close>: decimal digits, with a minus sign for a negative number.\<close>

definition digit_char :: "nat \<Rightarrow> char" where
  "digit_char d = (''0123456789'') ! (d mod 10)"

function show_nat :: "nat \<Rightarrow> string" where
  "show_nat n =
     (if n < 10 then [digit_char n] else show_nat (n div 10) @ [digit_char (n mod 10)])"
  by pat_completeness auto
termination
  by (relation "measure id") auto

declare show_nat.simps [simp del]

definition show_int :: "int \<Rightarrow> string" where
  "show_int i = (if i < 0 then CHR ''-'' # show_nat (nat (- i)) else show_nat (nat i))"

text \<open>Hexadecimal digits of an address, as \<open>fmt\<close> prints a channel or a pointer.\<close>

function show_hex :: "nat \<Rightarrow> string" where
  "show_hex n =
     (if n < 16 then [hexdigit n] else show_hex (n div 16) @ [hexdigit (n mod 16)])"
  by pat_completeness auto
termination
  by (relation "measure id") auto

declare show_hex.simps [simp del]

fun join_space :: "string list \<Rightarrow> string" where
  "join_space [] = []"
| "join_space [s] = s"
| "join_space (s # t # ss) = s @ '' '' @ join_space (t # ss)"

section \<open>Go values and errors\<close>

text \<open>
  The dynamic values (\<open>interface{}\<close>) that the client hands to the encoder as call
  arguments and receives from the decoder: \<open>nil\<close>, booleans, \<open>int\<close>, \<open>int64\<close>,
  \<open>uint64\<close>, strings, byte slices and \<open>[]interface{}\<close>. A nil slice and an empty
  slice are different values. \<open>GChan\<close> stands for a value of a kind that has no
  encoding (a channel, by its address). Floating-point values and maps are left out.
\<close>

datatype gval =
    GNil
  | GBool bool
  | GInt goint
  | GInt64 "64 word"
  | GUint64 "64 word"
  | GString string
  | GBytes "byte list"
  | GSlice "gval list"
  | GNilSlice
  | GChan nat

text \<open>\<open>fmt\<close>'s \<open>%v\<close> on these values.\<close>

fun fmt_v :: "gval \<Rightarrow> string" where
  "fmt_v GNil = ''<nil>''"
| "fmt_v (GBool b) = (if b then ''true'' else ''false'')"
| "fmt_v (GInt w) = show_int (sint w)"
| "fmt_v (GInt64 w) = show_int (sint w)"
| "fmt_v (GUint64 w) = show_nat (unat w)"
| "fmt_v (GString s) = s"
| "fmt_v (GBytes p) = ''['' @ join_space (map (\<lambda>b. show_nat (unat b)) p) @ '']''"
| "fmt_v (GSlice xs) = ''['' @ join_space (map fmt_v xs) @ '']''"
| "fmt_v GNilSlice = ''[]''"
| "fmt_v (GChan a) = ''0x'' @ show_hex a"

text \<open>
  Go's \<open>error\<close> values that occur here: an error that is only a message
  (\<open>errors.New\<close>, \<open>fmt.Errorf\<close>, and the errors of the transport and the codec), the
  RPC layer's \<open>rpc.Error\<close> carrying the peer's error value, and \<open>*BatchError\<close> with
  its \<open>Index\<close> and \<open>Err\<close>. A nil error is \<open>None\<close>.
\<close>

datatype error =
    ErrorString string
  | RpcError gval
  | BatchError int error

section \<open>The value encoder\<close>

text \<open>
  The encoder of package \<open>msgpack\<close> is not among the sources; \<open>nvim.go\<close> and the
  test helpers only call it. An encoder method writes bytes to the buffer behind it and
  returns an error: the model returns the bytes written and the error, if any.
\<close>

type_synonym wr = "byte list \<times> string option"

text \<open>The \<open>k\<close> low bytes of a number, most significant first, and their value.\<close>

fun be_bytes :: "nat \<Rightarrow> nat \<Rightarrow> byte list" where
  "be_bytes 0 n = []"
| "be_bytes (Suc k) n = of_nat (n div 256 ^ k) # be_bytes k n"

definition be_nat :: "byte list \<Rightarrow> nat" where
  "be_nat bs = foldl (\<lambda>a b. a * 256 + unat b) 0 bs"

text \<open>Writing one value after another: the second is not written when the first fails.\<close>

definition wr_seq :: "wr \<Rightarrow> wr \<Rightarrow> wr" where
  "wr_seq w1 w2 =
     (case snd w1 of
        Some e \<Rightarrow> w1
      | None \<Rightarrow> (fst w1 @ fst w2, snd w2))"

text \<open>
  Modelled from the spec: the methods of the missing \<open>msgpack.Encoder\<close>. The wire
  format is MessagePack; integers take the shortest of the 1/2/4/8-byte forms and the
  small-integer fast paths, strings and binaries and the array and map headers take the
  smallest of their length-prefixed forms that fits, an extension is its type-tag byte
  and raw payload behind a fixed-length code or a payload-length header. A length that
  fits no form is an error and writes nothing (the spec gives no message for it).
\<close>

definition PackNil :: wr where
  "PackNil = ([0xc0], None)"

definition PackBool :: "bool \<Rightarrow> wr" where
  "PackBool b = ([if b then 0xc3 else 0xc2], None)"

definition PackUint :: "64 word \<Rightarrow> wr" where
  "PackUint v =
     (let n = unat v in
      if n \<le> 0x7f then ([of_nat n], None)
      else if n \<le> 0xff then (0xcc # be_bytes 1 n, None)
      else if n \<le> 0xffff then (0xcd # be_bytes 2 n, None)
      else if n \<le> 0xffffffff then (0xce # be_bytes 4 n, None)
      else (0xcf # be_bytes 8 n, None))"

definition PackInt :: "64 word \<Rightarrow> wr" where
  "PackInt v =
     (let i = sint v; n = unat v in
      if 0 \<le> i then PackUint v
      else if - 32 \<le> i then (be_bytes 1 n, None)
      else if - 128 \<le> i then (0xd0 # be_bytes 1 n, None)
      else if - 32768 \<le> i then (0xd1 # be_bytes 2 n, None)
      else if - 2147483648 \<le> i then (0xd2 # be_bytes 4 n, None)
      else (0xd3 # be_bytes 8 n, None))"

definition PackFloat :: "64 word \<Rightarrow> wr" where
  "PackFloat bits = (0xcb # be_bytes 8 (unat bits), None)"

definition pack_len :: "string \<Rightarrow> int \<Rightarrow> nat \<Rightarrow> byte \<Rightarrow> byte \<Rightarrow> wr" where
  "pack_len what v fixmax fixcode code16 =
     (if v < 0 \<or> 0xffffffff < v then ([], Some (''msgpack: '' @ what @ '' length out of range''))
      else if v \<le> int fixmax then ([fixcode + of_int v], None)
      else if v \<le> 0xffff then (code16 # be_bytes 2 (nat v), None)
      else ((code16 + 1) # be_bytes 4 (nat v), None))"

definition PackArrayLen :: "int \<Rightarrow> wr" where
  "PackArrayLen v = pack_len ''array'' v 15 0x90 0xdc"

definition PackMapLen :: "int \<Rightarrow> wr" where
  "PackMapLen v = pack_len ''map'' v 15 0x80 0xde"

definition PackString :: "string \<Rightarrow> wr" where
  "PackString s =
     (let n = length s; p = string_bytes s in
      if n \<le> 31 then ((0xa0 + of_nat n) # p, None)
      else if n \<le> 0xff then (0xd9 # be_bytes 1 n @ p, None)
      else if n \<le> 0xffff then (0xda # be_bytes 2 n @ p, None)
      else if n \<le> 0xffffffff then (0xdb # be_bytes 4 n @ p, None)
      else ([], Some ''msgpack: string length out of range''))"

definition PackBinary :: "byte list \<Rightarrow> wr" where
  "PackBinary p =
     (let n = length p in
      if n \<le> 0xff then (0xc4 # be_bytes 1 n @ p, None)
      else if n \<le> 0xffff then (0xc5 # be_bytes 2 n @ p, None)
      else if n \<le> 0xffffffff then (0xc6 # be_bytes 4 n @ p, None)
      else ([], Some ''msgpack: binary length out of range''))"

definition PackExtension :: "goint \<Rightarrow> byte list \<Rightarrow> wr" where
  "PackExtension k d =
     (let n = length d; tag = (ucast k :: byte) in
      if n = 1 then (0xd4 # tag # d, None)
      else if n = 2 then (0xd5 # tag # d, None)
      else if n = 4 then (0xd6 # tag # d, None)
      else if n = 8 then (0xd7 # tag # d, None)
      else if n = 16 then (0xd8 # tag # d, None)
      else if n \<le> 0xff then (0xc7 # be_bytes 1 n @ tag # d, None)
      else if n \<le> 0xffff then (0xc8 # be_bytes 2 n @ tag # d, None)
      else if n \<le> 0xffffffff then (0xc9 # be_bytes 4 n @ tag # d, None)
      else ([], Some ''msgpack: extension length out of range''))"

definition PackRaw :: "byte list \<Rightarrow> wr" where
  "PackRaw p = (p, None)"

text \<open>
  Modelled from the spec: \<open>Encoder.Encode\<close>, which is missing with the rest of the
  encoder. It writes a value by its kind: a \<open>[]interface{}\<close> as an array header and
  then its members in order, stopping at the first member that fails; a nil slice as
  nil, which is what makes the wrappers below replace a nil argument list by an empty
  one; a value of a kind with no wire form is an error.
\<close>

fun Encode :: "gval \<Rightarrow> wr" and EncodeElems :: "gval list \<Rightarrow> wr" where
  "Encode GNil = PackNil"
| "Encode (GBool b) = PackBool b"
| "Encode (GInt v) = PackInt v"
| "Encode (GInt64 v) = PackInt v"
| "Encode (GUint64 v) = PackUint v"
| "Encode (GString s) = PackString s"
| "Encode (GBytes p) = PackBinary p"
| "Encode (GSlice xs) = wr_seq (PackArrayLen (int (length xs))) (EncodeElems xs)"
| "Encode GNilSlice = PackNil"
| "Encode (GChan a) = ([], Some ''msgpack: unsupported type chan'')"
| "EncodeElems [] = ([], None)"
| "EncodeElems (x # xs) = wr_seq (Encode x) (EncodeElems xs)"

section \<open>The Batch (nvim.go)\<close>

text \<open>
  A result parameter of an API call is a pointer to a variable of the caller, or nil
  when the caller wants no result. Pointers are addresses into a store of the caller's
  variables; two calls may name the same variable.
\<close>

type_synonym target = "nat option"
type_synonym store = "nat \<Rightarrow> gval"

text \<open>
  The fields of \<open>Batch\<close>. The encoder \<open>enc\<close> writes into \<open>buf\<close>, so it is not a
  field of its own here; the endpoint \<open>ep\<close> is an argument of \<open>Execute\<close>.
\<close>

record Batch =
  buf :: "byte list"
  sms :: "string list"
  results :: "target list"
  err :: "error option"

definition NewBatch :: Batch where
  "NewBatch = \<lparr>buf = [], sms = [], results = [], err = None\<rparr>"

definition emptyArgs :: "gval list" where
  "emptyArgs = []"

text \<open>
  \<open>Batch.call\<close>. The variadic \<open>args\<close> is nil (\<open>None\<close>) when the caller passes no
  argument. The errors of \<open>PackArrayLen\<close> and \<open>PackString\<close> are dropped, as in the
  source; only the error of \<open>Encode\<close> is kept in \<open>err\<close>.
\<close>

definition Batch_call :: "Batch \<Rightarrow> string \<Rightarrow> target \<Rightarrow> gval list option \<Rightarrow> Batch" where
  "Batch_call b sm result args =
     (if err b \<noteq> None then b
      else
        let args' = (case args of None \<Rightarrow> emptyArgs | Some a \<Rightarrow> a);
            w = Encode (GSlice args')
        in b\<lparr>sms := sms b @ [sm],
              results := results b @ [result],
              buf := buf b @ fst (PackArrayLen 2) @ fst (PackString sm) @ fst w,
              err := map_option ErrorString (snd w)\<rparr>)"

text \<open>\<open>batchArg.MarshalMsgPack\<close>: the array header of \<open>n\<close>, then the raw bytes \<open>p\<close>.\<close>

definition MarshalMsgPack :: "nat \<Rightarrow> byte list \<Rightarrow> wr" where
  "MarshalMsgPack n p = (fst (PackArrayLen (int n)) @ fst (PackRaw p), snd (PackRaw p))"

text \<open>
  The endpoint's \<open>Call\<close> belongs to the missing package \<open>rpc\<close>. For \<open>Execute\<close> it is
  a parameter: given the method and the marshalled argument of the request, the call
  either fails with an error, or delivers the decoded reply, the list of results and
  the optional failure descriptor \<open>(Index, Type, Message)\<close>.
\<close>

datatype reply =
    CallFailed error
  | Replied "gval list" "(int \<times> int \<times> string) option"

type_synonym endpoint = "string \<Rightarrow> byte list \<Rightarrow> reply"

text \<open>
  Modelled from the spec: how the missing decoder stores the reply's results. Each
  delivered result goes into its matching result target, in order; a target with no
  delivered result, and so every target from the failing index on, is left untouched.
\<close>

fun deliver :: "target list \<Rightarrow> gval list \<Rightarrow> store \<Rightarrow> store" where
  "deliver [] rs st = st"
| "deliver (t # ts) [] st = st"
| "deliver (t # ts) (r # rs) st =
     deliver ts rs (case t of None \<Rightarrow> st | Some a \<Rightarrow> st(a := r))"

text \<open>
  \<open>b.sms[e.Index]\<close>: an index out of range panics, which is \<open>None\<close> here.
\<close>

definition sms_at :: "string list \<Rightarrow> int \<Rightarrow> string option" where
  "sms_at xs i = (if 0 \<le> i \<and> i < int (length xs) then Some (xs ! nat i) else None)"

datatype outcome =
    Return "error option"
  | Panic

record exec_result =
  ret :: outcome
  batch :: Batch
  mem :: store
  sent :: "(string \<times> byte list) list"

text \<open>
  \<open>Batch.Execute\<close>. The deferred function resets the batch on every path. The
  constants \<open>exceptionError\<close> and \<open>validationError\<close> are declared in a generated file
  that is not among the sources, so they are the parameters \<open>xe\<close> and \<open>ve\<close>.
  \<open>sent\<close> lists the requests that went to the endpoint.
\<close>

definition Execute :: "int \<Rightarrow> int \<Rightarrow> endpoint \<Rightarrow> Batch \<Rightarrow> store \<Rightarrow> exec_result" where
  "Execute xe ve ep b st =
     (let reset = b\<lparr>buf := [], sms := [], results := [], err := None\<rparr> in
      case err b of
        Some e \<Rightarrow> \<lparr>ret = Return (Some e), batch = reset, mem = st, sent = []\<rparr>
      | None \<Rightarrow>
          let req = (''nvim_call_atomic'', fst (MarshalMsgPack (length (sms b)) (buf b))) in
          (case ep (fst req) (snd req) of
             CallFailed e \<Rightarrow> \<lparr>ret = Return (Some e), batch = reset, mem = st, sent = [req]\<rparr>
           | Replied rs eo \<Rightarrow>
               let st' = deliver (results b) rs st in
               (case eo of
                  None \<Rightarrow> \<lparr>ret = Return None, batch = reset, mem = st', sent = [req]\<rparr>
                | Some (idx, ty, msg) \<Rightarrow>
                    if idx < 0 \<or> idx \<ge> int (length (sms b)) \<or> (ty \<noteq> xe \<and> ty \<noteq> ve) then
                      \<lparr>ret = Return (Some (ErrorString
                           (''nvim:nvim_call_atomic '' @ show_int idx @ '' '' @ show_int ty
                            @ '' '' @ msg))),
                       batch = reset, mem = st', sent = [req]\<rparr>
                    else
                      let errorType = (if ty = ve then ''validation'' else ''exception'') in
                      (case sms_at (sms b) idx of
                         None \<Rightarrow> \<lparr>ret = Panic, batch = reset, mem = st', sent = [req]\<rparr>
                       | Some sm \<Rightarrow>
                           \<lparr>ret = Return (Some (BatchError idx (ErrorString
                                (''nvim:'' @ sm @ '' '' @ errorType @ '': '' @ msg)))),
                            batch = reset, mem = st', sent = [req]\<rparr>))))"

text \<open>
  \<open>fixError\<close>. An \<open>rpc.Error\<close> whose value is a \<open>[]interface{}\<close> of length 2 is
  rewritten when its first member equals the \<open>int64\<close> or the \<open>uint64\<close> of one of the
  two constants, the exception case first; every other error, and nil, is returned as
  it is.
\<close>

definition fixError :: "int \<Rightarrow> int \<Rightarrow> string \<Rightarrow> error option \<Rightarrow> error option" where
  "fixError xe ve sm e =
     (case e of
        Some (RpcError (GSlice [a0, a1])) \<Rightarrow>
          if a0 = GInt64 (word_of_int xe) \<or> a0 = GUint64 (word_of_int xe) then
            Some (ErrorString (''nvim:'' @ sm @ '' exception: '' @ fmt_v a1))
          else if a0 = GInt64 (word_of_int ve) \<or> a0 = GUint64 (word_of_int ve) then
            Some (ErrorString (''nvim:'' @ sm @ '' validation: '' @ fmt_v a1))
          else e
      | _ \<Rightarrow> e)"

section \<open>The method wrappers (nvim.go)\<close>

text \<open>
  For a direct call the endpoint's \<open>Call\<close> is again a parameter: given the method and
  the argument list (nil when the caller passes none), it returns an error or the
  result value, which is stored in the result parameter when there is one.
\<close>

type_synonym caller = "string \<Rightarrow> gval list option \<Rightarrow> error + gval"

record call_result =
  cret :: "error option"
  cmem :: store
  creq :: "string \<times> gval list option"

definition Nvim_call ::
  "int \<Rightarrow> int \<Rightarrow> caller \<Rightarrow> string \<Rightarrow> target \<Rightarrow> gval list option \<Rightarrow> store \<Rightarrow> call_result" where
  "Nvim_call xe ve ep sm result args st =
     (case ep sm args of
        Inl e \<Rightarrow> \<lparr>cret = fixError xe ve sm (Some e), cmem = st, creq = (sm, args)\<rparr>
      | Inr v \<Rightarrow>
          \<lparr>cret = fixError xe ve sm None,
           cmem = (case result of None \<Rightarrow> st | Some a \<Rightarrow> st(a := v)),
           creq = (sm, args)\<rparr>)"

text \<open>A \<open>[]interface{}\<close> as a value: nil or the slice of its members.\<close>

definition slice_val :: "gval list option \<Rightarrow> gval" where
  "slice_val xs = (case xs of None \<Rightarrow> GNilSlice | Some ys \<Rightarrow> GSlice ys)"

text \<open>
  \<open>if args == nil { args = []interface{}{} }\<close>, the first statement of each wrapper.
\<close>

definition nonnil :: "gval list option \<Rightarrow> gval list option" where
  "nonnil args = (case args of None \<Rightarrow> Some [] | Some a \<Rightarrow> Some a)"

definition Nvim_Call ::
  "int \<Rightarrow> int \<Rightarrow> caller \<Rightarrow> string \<Rightarrow> target \<Rightarrow> gval list option \<Rightarrow> store \<Rightarrow> call_result" where
  "Nvim_Call xe ve ep fname result args st =
     Nvim_call xe ve ep ''nvim_call_function'' result
       (Some [GString fname, slice_val (nonnil args)]) st"

definition Batch_Call :: "Batch \<Rightarrow> string \<Rightarrow> target \<Rightarrow> gval list option \<Rightarrow> Batch" where
  "Batch_Call b fname result args =
     Batch_call b ''nvim_call_function'' result
       (Some [GString fname, slice_val (nonnil args)])"

definition Nvim_CallDict ::
  "int \<Rightarrow> int \<Rightarrow> caller \<Rightarrow> gval list option \<Rightarrow> string \<Rightarrow> target \<Rightarrow> gval list option
     \<Rightarrow> store \<Rightarrow> call_result" where
  "Nvim_CallDict xe ve ep dict fname result args st =
     Nvim_call xe ve ep ''nvim_call_dict_function'' result
       (Some [GString fname, slice_val dict, slice_val (nonnil args)]) st"

definition Batch_CallDict ::
  "Batch \<Rightarrow> gval list option \<Rightarrow> string \<Rightarrow> target \<Rightarrow> gval list option \<Rightarrow> Batch" where
  "Batch_CallDict b dict fname result args =
     Batch_call b ''nvim_call_dict_function'' result
       (Some [GString fname, slice_val dict, slice_val (nonnil args)])"

definition Nvim_ExecuteLua ::
  "int \<Rightarrow> int \<Rightarrow> caller \<Rightarrow> string \<Rightarrow> target \<Rightarrow> gval list option \<Rightarrow> store \<Rightarrow> call_result" where
  "Nvim_ExecuteLua xe ve ep code result args st =
     Nvim_call xe ve ep ''nvim_execute_lua'' result
       (Some [GString code, slice_val (nonnil args)]) st"

definition Batch_ExecuteLua :: "Batch \<Rightarrow> string \<Rightarrow> target \<Rightarrow> gval list option \<Rightarrow> Batch" where
  "Batch_ExecuteLua b code result args =
     Batch_call b ''nvim_execute_lua'' result
       (Some [GString code, slice_val (nonnil args)])"

section \<open>Close (nvim.go)\<close>

text \<open>
  The client's fields that \<open>Close\<close> reads: \<open>cmd\<close> is \<open>None\<close> when there is no child
  process, and \<open>Some started\<close> otherwise, where \<open>started\<close> says that \<open>cmd.Process\<close>
  is not nil; \<open>serveCh\<close> says that the channel of the Serve goroutine exists.
\<close>

record Nvim =
  cmd :: "bool option"
  serveCh :: bool

text \<open>
  What the blocking calls of \<open>Close\<close> return is the environment's: the error of
  \<open>ep.Close()\<close>, the error of \<open>cmd.Wait()\<close>, and what arrives on \<open>serveCh\<close> within
  the 10 seconds of the \<open>select\<close> (\<open>None\<close> when nothing arrives in time).
\<close>

record close_env =
  epCloseErr :: "error option"
  waitErr :: "error option"
  serveErr :: "error option option"

text \<open>The steps \<open>Close\<close> performs, with the seconds of the two timers.\<close>

datatype step =
    AfterFuncKill nat
  | EpClose
  | ReadMuLock
  | CmdWait
  | SelectServe nat
  | ReadMuUnlock
  | TimerStop

definition errServe :: "close_env \<Rightarrow> error option" where
  "errServe env =
     (case serveErr env of
        Some e \<Rightarrow> e
      | None \<Rightarrow> Some (ErrorString ''nvim: Serve did not exit''))"

definition Close :: "Nvim \<Rightarrow> close_env \<Rightarrow> error option \<times> step list" where
  "Close v env =
     (let timer = (cmd v = Some True);
          s0 = (if timer then [AfterFuncKill 10] else []);
          err0 = epCloseErr env;
          s1 = s0 @ [EpClose];
          err1 = (if cmd v \<noteq> None then (if err0 = None then waitErr env else err0) else err0);
          s2 = (if cmd v \<noteq> None then s1 @ [ReadMuLock, CmdWait] else s1);
          err2 = (if serveCh v then (if err1 = None then errServe env else err1) else err1);
          s3 = (if serveCh v then s2 @ [SelectServe 10] else s2);
          deferred = (if cmd v \<noteq> None then [ReadMuUnlock] else [])
                     @ (if timer then [TimerStop] else [])
      in (err2, s3 @ deferred))"

text \<open>The first non-nil error of a list, in its order.\<close>

fun first_error :: "error option list \<Rightarrow> error option" where
  "first_error [] = None"
| "first_error (None # es) = first_error es"
| "first_error (Some e # es) = Some e"

section \<open>The value decoder and the test helpers pack and unpack\<close>

text \<open>
  The kinds of value the decoder tells apart, and what it holds after reading one: the
  kind, the number (an integer, a boolean as 0 or 1, the bits of a float, or a length),
  the payload bytes and the extension's type tag.
\<close>

text \<open>The decoder's \<open>Type\<close>; the suffix keeps the names apart from HOL's.\<close>

datatype dtype =
    InvalidT | NilT | BoolT | IntT | UintT | FloatT | ArrayLenT | MapLenT | StringT | BinaryT
  | ExtensionT

record item =
  kind :: dtype
  num :: "64 word"
  dat :: "byte list"
  ext :: goint

definition io_EOF :: error where
  "io_EOF = ErrorString ''EOF''"

definition io_ErrUnexpectedEOF :: error where
  "io_ErrUnexpectedEOF = ErrorString ''unexpected EOF''"

text \<open>A number of \<open>k\<close> bytes read as two's complement, widened to 64 bits.\<close>

definition sext :: "nat \<Rightarrow> nat \<Rightarrow> 64 word" where
  "sext k x = (if 2 ^ (8 * k - 1) \<le> x then word_of_int (int x - 2 ^ (8 * k)) else of_nat x)"

text \<open>
  The readers return the item and the number of bytes they used behind the code byte.
\<close>

definition fixed :: "dtype \<Rightarrow> 64 word \<Rightarrow> error + item \<times> nat" where
  "fixed t n = Inr (\<lparr>kind = t, num = n, dat = [], ext = 0\<rparr>, 0)"

definition read_num :: "dtype \<Rightarrow> nat \<Rightarrow> bool \<Rightarrow> byte list \<Rightarrow> error + item \<times> nat" where
  "read_num t k twos r =
     (if length r < k then Inl io_ErrUnexpectedEOF
      else
        let x = be_nat (take k r) in
        Inr (\<lparr>kind = t, num = (if twos then sext k x else of_nat x), dat = [], ext = 0\<rparr>, k))"

definition read_data :: "dtype \<Rightarrow> goint \<Rightarrow> nat \<Rightarrow> nat \<Rightarrow> byte list \<Rightarrow> error + item \<times> nat" where
  "read_data t tag n off r =
     (if length r < off + n then Inl io_ErrUnexpectedEOF
      else Inr (\<lparr>kind = t, num = of_nat n, dat = take n (drop off r), ext = tag\<rparr>, off + n))"

definition read_sized :: "dtype \<Rightarrow> nat \<Rightarrow> byte list \<Rightarrow> error + item \<times> nat" where
  "read_sized t k r =
     (if length r < k then Inl io_ErrUnexpectedEOF
      else read_data t 0 (be_nat (take k r)) k r)"

definition read_ext :: "nat \<Rightarrow> nat \<Rightarrow> byte list \<Rightarrow> error + item \<times> nat" where
  "read_ext n off r =
     (if length r < off + 1 then Inl io_ErrUnexpectedEOF
      else read_data ExtensionT (scast (r ! off)) n (off + 1) r)"

definition read_ext_sized :: "nat \<Rightarrow> byte list \<Rightarrow> error + item \<times> nat" where
  "read_ext_sized k r =
     (if length r < k then Inl io_ErrUnexpectedEOF
      else read_ext (be_nat (take k r)) k r)"

text \<open>
  Modelled from the spec: the missing \<open>Decoder.Unpack\<close>, reading one MessagePack value
  whose code byte is \<open>c\<close> from the bytes \<open>r\<close> behind it. It reads every wire form:
  the small-integer fast paths, the 1/2/4/8-byte integers, both float forms (a
  single-precision value is widened by the language's conversion, the parameter
  \<open>widen\<close>), the length-prefixed strings and binaries, the array and map headers, which
  carry no payload, and the extensions. The spec gives no message for the unused code.
\<close>

definition Unpack1 :: "(32 word \<Rightarrow> 64 word) \<Rightarrow> byte \<Rightarrow> byte list \<Rightarrow> error + item \<times> nat" where
  "Unpack1 widen c r =
     (let k = unat c in
      if k \<le> 0x7f then fixed IntT (of_nat k)
      else if k \<le> 0x8f then fixed MapLenT (of_nat (k - 0x80))
      else if k \<le> 0x9f then fixed ArrayLenT (of_nat (k - 0x90))
      else if k \<le> 0xbf then read_data StringT 0 (k - 0xa0) 0 r
      else if k = 0xc0 then fixed NilT 0
      else if k = 0xc1 then Inl (ErrorString ''msgpack: invalid code c1'')
      else if k = 0xc2 then fixed BoolT 0
      else if k = 0xc3 then fixed BoolT 1
      else if k = 0xc4 then read_sized BinaryT 1 r
      else if k = 0xc5 then read_sized BinaryT 2 r
      else if k = 0xc6 then read_sized BinaryT 4 r
      else if k = 0xc7 then read_ext_sized 1 r
      else if k = 0xc8 then read_ext_sized 2 r
      else if k = 0xc9 then read_ext_sized 4 r
      else if k = 0xca then
        (if length r < 4 then Inl io_ErrUnexpectedEOF
         else Inr (\<lparr>kind = FloatT, num = widen (of_nat (be_nat (take 4 r))), dat = [], ext = 0\<rparr>, 4))
      else if k = 0xcb then read_num FloatT 8 False r
      else if k = 0xcc then read_num UintT 1 False r
      else if k = 0xcd then read_num UintT 2 False r
      else if k = 0xce then read_num UintT 4 False r
      else if k = 0xcf then read_num UintT 8 False r
      else if k = 0xd0 then read_num IntT 1 True r
      else if k = 0xd1 then read_num IntT 2 True r
      else if k = 0xd2 then read_num IntT 4 True r
      else if k = 0xd3 then read_num IntT 8 True r
      else if k = 0xd4 then read_ext 1 0 r
      else if k = 0xd5 then read_ext 2 0 r
      else if k = 0xd6 then read_ext 4 0 r
      else if k = 0xd7 then read_ext 8 0 r
      else if k = 0xd8 then read_ext 16 0 r
      else if k = 0xd9 then read_sized StringT 1 r
      else if k = 0xda then read_sized StringT 2 r
      else if k = 0xdb then read_sized StringT 4 r
      else if k = 0xdc then read_num ArrayLenT 2 False r
      else if k = 0xdd then read_num ArrayLenT 4 False r
      else if k = 0xde then read_num MapLenT 2 False r
      else if k = 0xdf then read_num MapLenT 4 False r
      else fixed IntT (scast c))"

text \<open>
  \<open>Unpack\<close> on the rest of the input: \<open>io.EOF\<close> at its end, else the item and the
  input behind it.
\<close>

definition Unpack :: "(32 word \<Rightarrow> 64 word) \<Rightarrow> byte list \<Rightarrow> error + item \<times> byte list" where
  "Unpack widen p =
     (case p of
        [] \<Rightarrow> Inl io_EOF
      | c # r \<Rightarrow>
          (case Unpack1 widen c r of
             Inl e \<Rightarrow> Inl e
           | Inr (it, n) \<Rightarrow> Inr (it, drop n r)))"

text \<open>
  The values of the test helpers \<open>pack\<close> and \<open>unpack\<close>: nil, \<open>bool\<close>, \<open>int\<close>,
  \<open>int64\<close>, \<open>uint64\<close>, \<open>float64\<close> (by its 64 bits), \<open>arrayLen\<close> and \<open>mapLen\<close>
  (both \<open>uint32\<close>), \<open>string\<close>, \<open>[]byte\<close> and \<open>extension{k, d}\<close>.
\<close>

datatype tval =
    TNil
  | TBool bool
  | TInt goint
  | TInt64 "64 word"
  | TUint64 "64 word"
  | TFloat64 "64 word"
  | TArrayLen "32 word"
  | TMapLen "32 word"
  | TString string
  | TBytes "byte list"
  | TExtension goint string

text \<open>
  \<open>unpack\<close>'s \<open>switch u.Type()\<close>: the accessor of the item's kind, converted as the
  source converts it. \<open>u.Bool()\<close> is true for a number other than 0.
\<close>

definition unpack_value :: "item \<Rightarrow> error + tval" where
  "unpack_value u =
     (case kind u of
        NilT \<Rightarrow> Inr TNil
      | BoolT \<Rightarrow> Inr (TBool (num u \<noteq> 0))
      | IntT \<Rightarrow> Inr (TInt (num u))
      | UintT \<Rightarrow> Inr (TInt (num u))
      | FloatT \<Rightarrow> Inr (TFloat64 (num u))
      | BinaryT \<Rightarrow> Inr (TBytes (dat u))
      | StringT \<Rightarrow> Inr (TString (bytes_string (dat u)))
      | ArrayLenT \<Rightarrow> Inr (TArrayLen (ucast (num u)))
      | MapLenT \<Rightarrow> Inr (TMapLen (ucast (num u)))
      | ExtensionT \<Rightarrow> Inr (TExtension (ext u) (bytes_string (dat u)))
      | InvalidT \<Rightarrow> Inl (ErrorString ''unpack 0 not handled''))"

text \<open>
  \<open>unpack\<close>: the loop ends at \<open>io.EOF\<close> with the values read so far, and at any other
  error with that error. Every round uses at least the code byte, so the loop ends.
\<close>

function unpack_loop :: "(32 word \<Rightarrow> 64 word) \<Rightarrow> byte list \<Rightarrow> tval list \<Rightarrow> error + tval list" where
  "unpack_loop widen p data =
     (case Unpack widen p of
        Inl e \<Rightarrow> (if e = io_EOF then Inr data else Inl e)
      | Inr (u, rest) \<Rightarrow>
          (case unpack_value u of
             Inl e \<Rightarrow> Inl e
           | Inr v \<Rightarrow> unpack_loop widen rest (data @ [v])))"
  by pat_completeness auto
termination
  by (relation "measure (\<lambda>(w, p, d). length p)")
     (auto simp add: Unpack_def split: list.splits sum.splits)

declare unpack_loop.simps [simp del]

definition unpack :: "(32 word \<Rightarrow> 64 word) \<Rightarrow> byte list \<Rightarrow> error + tval list" where
  "unpack widen p = unpack_loop widen p []"

text \<open>
  \<open>pack\<close>'s type switch: the encoder method of the value's type; a value of any other
  type (an \<open>int\<close>) has none.
\<close>

fun pack_value :: "tval \<Rightarrow> wr" where
  "pack_value (TInt64 v) = PackInt v"
| "pack_value (TUint64 v) = PackUint v"
| "pack_value (TBool v) = PackBool v"
| "pack_value (TFloat64 v) = PackFloat v"
| "pack_value (TArrayLen v) = PackArrayLen (uint v)"
| "pack_value (TMapLen v) = PackMapLen (uint v)"
| "pack_value (TString v) = PackString v"
| "pack_value (TBytes v) = PackBinary v"
| "pack_value (TExtension k d) = PackExtension k (string_bytes d)"
| "pack_value TNil = PackNil"
| "pack_value (TInt v) = ([], Some ''no pack for type int'')"

fun pack_loop :: "tval list \<Rightarrow> byte list \<Rightarrow> error + byte list" where
  "pack_loop [] b = Inr b"
| "pack_loop (v # vs) b =
     (case snd (pack_value v) of
        Some e \<Rightarrow> Inl (ErrorString e)
      | None \<Rightarrow> pack_loop vs (b @ fst (pack_value v)))"

definition pack :: "tval list \<Rightarrow> error + byte list" where
  "pack vs = pack_loop vs []"

text \<open>
  What \<open>unpack\<close> returns for a packed value: an integer comes back as an \<open>int\<close> of the
  same 64 bits, every other value as it is. \<open>number_of\<close> is the number an integer
  value stands for.
\<close>

fun unpacked :: "tval \<Rightarrow> tval" where
  "unpacked (TInt64 v) = TInt v"
| "unpacked (TUint64 v) = TInt v"
| "unpacked v = v"

fun number_of :: "tval \<Rightarrow> int option" where
  "number_of (TInt v) = Some (sint v)"
| "number_of (TInt64 v) = Some (sint v)"
| "number_of (TUint64 v) = Some (uint v)"
| "number_of v = None"

text \<open>
  An extension's type tag is one byte on the wire and is read back as a signed byte.
\<close>

fun tag_fits :: "tval \<Rightarrow> bool" where
  "tag_fits (TExtension k d) = (- 128 \<le> sint k \<and> sint k \<le> 127)"
| "tag_fits v = True"

section \<open>Sequences of batch calls\<close>

text \<open>
  A queued call is its method, result parameter and argument list. \<open>Batch_calls\<close>
  makes the calls one after the other on the same batch.
\<close>

type_synonym queued = "string \<times> target \<times> gval list option"

fun Batch_calls :: "Batch \<Rightarrow> queued list \<Rightarrow> Batch" where
  "Batch_calls b [] = b"
| "Batch_calls b ((sm, result, args) # cs) = Batch_calls (Batch_call b sm result args) cs"

text \<open>
  The argument of the atomic request as the specification words it: the array header
  of the number of calls, then for each call a pair, the header of a 2-element array,
  the method as a string and the arguments as an array.
\<close>

definition spec_pair :: "queued \<Rightarrow> byte list" where
  "spec_pair c =
     fst (PackArrayLen 2) @ fst (PackString (fst c))
     @ fst (Encode (GSlice (case snd (snd c) of None \<Rightarrow> [] | Some a \<Rightarrow> a)))"

definition spec_batch_arg :: "queued list \<Rightarrow> byte list" where
  "spec_batch_arg cs = fst (PackArrayLen (int (length cs))) @ concat (map spec_pair cs)"

section \<open>Properties of the extension payloads\<close>

lemma be32_encodeExt:
  "be32 (ucast (signed_drop_bit 24 n)) (ucast (signed_drop_bit 16 n))
     (ucast (signed_drop_bit 8 n)) (ucast n) = (ucast (n :: 64 word) :: 32 word)"
  unfolding be32_def
proof (rule bit_word_eqI)
  fix k assume "k < LENGTH(32)"
  then have k: "k < 32" by simp
  consider "k < 8" | "8 \<le> k \<and> k < 16" | "16 \<le> k \<and> k < 24" | "24 \<le> k \<and> k < 32"
    using k by linarith
  then show "bit (ucast (ucast n :: byte) OR push_bit 8 (ucast (ucast (signed_drop_bit 8 n) :: byte)) OR
                 push_bit 16 (ucast (ucast (signed_drop_bit 16 n) :: byte)) OR
                 push_bit 24 (ucast (ucast (signed_drop_bit 24 n) :: byte)) :: 32 word) k
        = bit (ucast n :: 32 word) k"
    by cases (auto simp add: bit_simps)
qed

lemma scast_ucast_32:
  assumes "- (2 ^ 31) \<le> sint (n :: 64 word)" and "sint n < 2 ^ 31"
  shows "scast (ucast n :: 32 word) = n"
proof -
  have self: "signed_take_bit 31 (sint n) = sint n"
    using assms by (simp add: signed_take_bit_int_eq_self_iff)
  have "sint (ucast n :: 32 word) = signed_take_bit 31 (take_bit 32 (uint n))"
    by (simp add: sint_uint unsigned_ucast_eq)
  also have "\<dots> = signed_take_bit 31 (uint n)"
    by (simp add: signed_take_bit_take_bit)
  also have "\<dots> = signed_take_bit 31 (sint n)"
    by (simp add: signed_take_bit_eq_iff_take_bit_eq sint_uint take_bit_signed_take_bit)
  finally have "sint (ucast n :: 32 word) = sint n" using self by simp
  then show ?thesis by (simp add: scast_eq)
qed

text \<open>
  C8. For every \<open>int\<close> \<open>n\<close> in the signed 32-bit range, \<open>decodeExt (encodeExt n)\<close>
  returns \<open>n\<close> and no error, and \<open>encodeExt n\<close> is the 5-byte form: the code
  \<open>0xd2\<close> and four bytes.
\<close>

theorem decodeExt_encodeExt:
  assumes "- (2 ^ 31) \<le> sint n" and "sint n < 2 ^ 31"
  shows "decodeExt (encodeExt n) = Inr n \<and> length (encodeExt n) = 5 \<and> encodeExt n ! 0 = 0xd2"
  using assms by (simp add: decodeExt_def encodeExt_def be32_encodeExt scast_ucast_32)

theorem decodeExt_encodeExt_witness:
  "decodeExt (encodeExt (- 5)) = Inr (- 5) \<and> decodeExt (encodeExt 2147483647) = Inr 2147483647
   \<and> decodeExt (encodeExt (- 2147483648)) = Inr (- 2147483648)"
  using decodeExt_encodeExt [of "- 5"] decodeExt_encodeExt [of 2147483647]
    decodeExt_encodeExt [of "- 2147483648"]
  by simp

section \<open>Properties of the Batch\<close>

text \<open>
  C4. Whatever \<open>Execute\<close> returns (nil, a \<open>BatchError\<close>, the endpoint's error or the
  captured encode error) the batch it leaves behind has an empty payload buffer, no
  method names, no result targets and no captured error: it is the batch \<open>NewBatch\<close>
  makes, ready for a new sequence of calls.
\<close>

theorem Execute_resets: "batch (Execute xe ve ep b st) = NewBatch"
  by (simp add: Execute_def NewBatch_def Let_def split: option.splits reply.splits prod.splits)

end
